theory Spec2Isabelle
  imports Complex_Main
begin

section \<open>The meme relay of \<^verbatim>\<open>thinking_gavin.py\<close>\<close>

text \<open>
  The program is one Flask view, \<^verbatim>\<open>thinking\<close>, and its helper \<^verbatim>\<open>get_meme\<close>.
  The view reads the form field \<^verbatim>\<open>text\<close>, splits it at the colons, asks the meme
  generator for an image with one HTTP GET and answers with a chat payload that holds
  the image URL.

  The embedding keeps the two functions as they are written. What lies outside the
  source is taken as it is observed by the source:
  \<^item> the network is a function from the request handed to \<^verbatim>\<open>requests.get\<close> to
    either the exception it raises or the response it returns;
  \<^item> of a response the code reads \<^verbatim>\<open>response.ok\<close> and \<^verbatim>\<open>response.json()\<close>, so a
    response is its status flag, the text of its body and what decoding the text gives;
  \<^item> every call of \<^verbatim>\<open>requests.get\<close> is appended to a list that is threaded through
    the functions, so that the number and the content of the outbound calls can be
    stated.
\<close>

subsection \<open>Python values\<close>

text \<open>
  The values that \<^verbatim>\<open>response.json()\<close> can produce: \<^verbatim>\<open>None\<close>, booleans, integers,
  floats, strings, lists and dictionaries with string keys. A dictionary is an
  association list; a lookup takes the first pair with the key. A float is its real
  value, which is all its truth value depends on.
\<close>

datatype json =
    JNull
  | JBool bool
  | JInt int
  | JFloat real
  | JStr string
  | JArr "json list"
  | JObj "(string \<times> json) list"

text \<open>
  Exceptions. \<open>AttributeError\<close>, \<open>KeyError\<close> and \<open>TypeError\<close> are raised by the
  interpreter. \<open>JSONDecodeError msg doc pos\<close> is the exception of \<^verbatim>\<open>response.json()\<close>
  for a body that is not valid JSON: as \<^verbatim>\<open>json.JSONDecodeError\<close> does, it carries the
  message, the document that was being decoded and the position of the failure.
  \<open>LibraryError\<close> stands for an exception raised by \<^verbatim>\<open>requests.get\<close> (a transport
  failure), named by a description that the source never inspects. \<open>PyException v e\<close>
  is \<^verbatim>\<open>Exception(v)\<close> raised \<^verbatim>\<open>from e\<close>.
\<close>

datatype pyexc =
    AttributeError string
  | KeyError string
  | TypeError string
  | JSONDecodeError string string nat
  | LibraryError string
  | PyException json pyexc

text \<open>Truth value of a Python value, as \<^verbatim>\<open>if img:\<close> tests it.\<close>

fun truthy :: "json \<Rightarrow> bool" where
  "truthy JNull = False"
| "truthy (JBool b) = b"
| "truthy (JInt i) = (i \<noteq> 0)"
| "truthy (JFloat x) = (x \<noteq> 0)"
| "truthy (JStr s) = (s \<noteq> [])"
| "truthy (JArr xs) = (xs \<noteq> [])"
| "truthy (JObj kvs) = (kvs \<noteq> [])"

text \<open>
  Subscription \<^verbatim>\<open>v[k]\<close> with a string key: a dictionary raises \<^verbatim>\<open>KeyError\<close> for a
  missing key, every other value raises \<^verbatim>\<open>TypeError\<close>.
\<close>

fun getitem :: "json \<Rightarrow> string \<Rightarrow> pyexc + json" where
  "getitem (JObj kvs) k = (case map_of kvs k of None \<Rightarrow> Inl (KeyError k) | Some v \<Rightarrow> Inr v)"
| "getitem JNull k = Inl (TypeError ''NoneType object is not subscriptable'')"
| "getitem (JBool b) k = Inl (TypeError ''bool object is not subscriptable'')"
| "getitem (JInt i) k = Inl (TypeError ''int object is not subscriptable'')"
| "getitem (JFloat x) k = Inl (TypeError ''float object is not subscriptable'')"
| "getitem (JStr s) k = Inl (TypeError ''string indices must be integers'')"
| "getitem (JArr xs) k = Inl (TypeError ''list indices must be integers or slices'')"

text \<open>\<^verbatim>\<open>x or ''\<close> for \<^verbatim>\<open>x\<close> a string or \<^verbatim>\<open>None\<close>.\<close>

fun or_empty :: "string option \<Rightarrow> string" where
  "or_empty None = []"
| "or_empty (Some s) = (if s \<noteq> [] then s else [])"

text \<open>
  \<^verbatim>\<open>s.split(c)\<close> for a separator of one character and no limit: the string is cut at
  every occurrence of the separator, and the empty string gives one empty part.
\<close>

fun split :: "string \<Rightarrow> char \<Rightarrow> string list" where
  "split [] c = [[]]"
| "split (x # xs) c =
     (if x = c then [] # split xs c
      else (case split xs c of [] \<Rightarrow> [[x]] | p # ps \<Rightarrow> (x # p) # ps))"

subsection \<open>The outside world\<close>

text \<open>
  The arguments of \<^verbatim>\<open>requests.get(url, params=params)\<close>. The parameters are the
  dictionary literal of the source, in its order; a value is a string or \<^verbatim>\<open>None\<close>
  (the credentials are \<^verbatim>\<open>None\<close> when the environment does not set them).
\<close>

datatype http_method = GET | POST

record request =
  meth :: http_method
  url :: string
  params :: "(string \<times> string option) list"

text \<open>
  Of a response the source reads \<^verbatim>\<open>response.ok\<close> and calls \<^verbatim>\<open>response.json()\<close>, which
  decodes the text of the body. A response is therefore its status flag, the text of
  its body (\<^verbatim>\<open>response.text\<close>) and what decoding that text gives: the value, or the
  message and the position of the failure.
\<close>

record response =
  ok :: bool
  resp_text :: string
  json_body :: "(string \<times> nat) + json"

text \<open>
  \<^verbatim>\<open>response.json()\<close>: the decoded body, or the decoder's exception, which holds the
  text that was decoded as its document.
\<close>

definition response_json :: "response \<Rightarrow> pyexc + json" where
  "response_json rsp =
     (case json_body rsp of
        Inl (msg, pos) \<Rightarrow> Inl (JSONDecodeError msg (resp_text rsp) pos)
      | Inr v \<Rightarrow> Inr v)"

type_synonym net = "request \<Rightarrow> pyexc + response"

text \<open>The credentials, read from the environment once.\<close>

record config =
  USERNAME :: "string option"
  PASSWORD :: "string option"

definition GAVIN_ID :: string where
  "GAVIN_ID = ''16191858''"

definition MG_URL :: string where
  "MG_URL = ''http://version1.api.memegenerator.net/Instance_Create''"

text \<open>\<^verbatim>\<open>requests.get\<close>: the call is logged and the network answers.\<close>

definition requests_get :: "net \<Rightarrow> string \<Rightarrow> (string \<times> string option) list \<Rightarrow> request list
    \<Rightarrow> (pyexc + response) \<times> request list" where
  "requests_get nw u ps sent =
     (let rq = \<lparr>meth = GET, url = u, params = ps\<rparr> in (nw rq, sent @ [rq]))"

text \<open>
  A stubbed external API for concrete runs: whatever the request, \<^verbatim>\<open>requests.get\<close>
  ends the same way.
\<close>

definition stub_net :: "pyexc + response \<Rightarrow> net" where
  "stub_net a rq = a"

subsection \<open>\<^verbatim>\<open>get_meme\<close>\<close>

text \<open>The dictionary literal \<^verbatim>\<open>params\<close> of \<^verbatim>\<open>get_meme\<close>.\<close>

definition meme_params :: "config \<Rightarrow> string \<Rightarrow> string option \<Rightarrow> string option
    \<Rightarrow> (string \<times> string option) list" where
  "meme_params cfg image_id text0 text1 =
     [(''username'', USERNAME cfg),
      (''password'', PASSWORD cfg),
      (''languageCode'', Some ''en''),
      (''text0'', Some (or_empty text0)),
      (''text1'', Some (or_empty text1)),
      (''imageID'', Some image_id),
      (''generatorID'', Some ''6693723'')]"

text \<open>The expression \<^verbatim>\<open>r_json['result']['instanceImageUrl']\<close> of the \<^verbatim>\<open>try\<close> block.\<close>

definition instance_image_url :: "json \<Rightarrow> pyexc + json" where
  "instance_image_url r_json =
     (case getitem r_json ''result'' of
        Inl e \<Rightarrow> Inl e
      | Inr res \<Rightarrow> getitem res ''instanceImageUrl'')"

text \<open>
  The result is the value returned (\<open>JNull\<close> is \<^verbatim>\<open>None\<close>, which is also what the
  function returns when it falls off its end because the response is not ok) or the
  exception raised. Only the two subscriptions are inside the \<^verbatim>\<open>try\<close>; the call of
  \<^verbatim>\<open>response.json()\<close> is before it.
\<close>

definition get_meme :: "config \<Rightarrow> net \<Rightarrow> string \<Rightarrow> string option \<Rightarrow> string option
    \<Rightarrow> request list \<Rightarrow> (pyexc + json) \<times> request list" where
  "get_meme cfg nw image_id text0 text1 sent =
     (case requests_get nw MG_URL (meme_params cfg image_id text0 text1) sent of
        (Inl e, sent') \<Rightarrow> (Inl e, sent')
      | (Inr rsp, sent') \<Rightarrow>
          if ok rsp then
            (case response_json rsp of
               Inl e \<Rightarrow> (Inl e, sent')
             | Inr r_json \<Rightarrow>
                 (case instance_image_url r_json of
                    Inl e \<Rightarrow> (Inl (PyException r_json e), sent')
                  | Inr img_url \<Rightarrow> (Inr img_url, sent')))
          else (Inr JNull, sent'))"

subsection \<open>\<^verbatim>\<open>thinking\<close>\<close>

text \<open>\<^verbatim>\<open>request.form.get(k)\<close>: the first value of the field, \<^verbatim>\<open>None\<close> when absent.\<close>

definition form_get :: "(string \<times> string) list \<Rightarrow> string \<Rightarrow> string option" where
  "form_get form k = map_of form k"

text \<open>\<^verbatim>\<open>jsonify(**kw)\<close>: the response whose body is the JSON object of the keywords.\<close>

definition jsonify :: "(string \<times> json) list \<Rightarrow> json" where
  "jsonify kw = JObj kw"

text \<open>
  The view. The route \<^verbatim>\<open>/<image_id>/\<close> passes the path segment, the route \<^verbatim>\<open>/\<close>
  passes nothing and the default \<^verbatim>\<open>GAVIN_ID\<close> applies. The result is the exception
  raised, or what the view returns: \<open>Some\<close> of the JSON response, or \<open>None\<close>.
  Calling \<^verbatim>\<open>.split\<close> on the \<^verbatim>\<open>None\<close> of an absent field raises \<^verbatim>\<open>AttributeError\<close>.
\<close>

definition thinking :: "config \<Rightarrow> net \<Rightarrow> string option \<Rightarrow> (string \<times> string) list
    \<Rightarrow> request list \<Rightarrow> (pyexc + json option) \<times> request list" where
  "thinking cfg nw path_image_id form sent =
     (let image_id = (case path_image_id of None \<Rightarrow> GAVIN_ID | Some i \<Rightarrow> i) in
      case form_get form ''text'' of
        None \<Rightarrow> (Inl (AttributeError ''NoneType object has no attribute split''), sent)
      | Some text \<Rightarrow>
          (let args = split text CHR '':'' in
           case (if length args > 1
                 then get_meme cfg nw image_id (Some (args ! 0)) (Some (args ! 1)) sent
                 else get_meme cfg nw image_id (Some (args ! 0)) None sent) of
             (Inl e, sent') \<Rightarrow> (Inl e, sent')
           | (Inr img, sent') \<Rightarrow>
               if truthy img then
                 (Inr (Some (jsonify
                    [(''response_type'', JStr ''in_channel''),
                     (''attachments'',
                        JArr [JObj [(''text'', img), (''image_url'', img)]])])), sent')
               else (Inr None, sent')))"

section \<open>Properties\<close>

subsection \<open>Splitting\<close>

lemma split_not_Nil: "split s c \<noteq> []"
  by (induction s) (auto split: list.splits)

lemma split_no_sep: "c \<notin> set s \<Longrightarrow> split s c = [s]"
  by (induction s) (auto split: list.splits)

lemma length_split: "length (split s c) = Suc (count_list s c)"
  by (induction s) (auto split: list.splits simp: split_not_Nil)

lemma split_append_sep: "c \<notin> set a \<Longrightarrow> split (a @ c # r) c = a # split r c"
  by (induction a) (auto split: list.splits)

lemma split_parts_no_sep: "p \<in> set (split s c) \<Longrightarrow> c \<notin> set p"
  by (induction s arbitrary: p) (auto split: list.splits if_splits)

lemma hd_split: "split s c ! 0 = takeWhile (\<lambda>x. x \<noteq> c) s"
  by (induction s) (auto split: list.splits simp: split_not_Nil)

lemma split_two:
  "c \<notin> set a \<Longrightarrow> split (a @ c # r) c ! 0 = a \<and> 1 < length (split (a @ c # r) c)
     \<and> split (a @ c # r) c ! 1 = takeWhile (\<lambda>x. x \<noteq> c) r"
  by (simp add: split_append_sep length_split hd_split)

lemma split_first_two:
  assumes "1 < length (split s c)"
  shows "split (split s c ! 0 @ c # split s c ! 1) c = [split s c ! 0, split s c ! 1]"
proof -
  have "0 < length (split s c)"
    by (simp add: split_not_Nil)
  then have "split s c ! 0 \<in> set (split s c)"
    by (rule nth_mem)
  moreover from assms have "split s c ! 1 \<in> set (split s c)"
    by (rule nth_mem)
  ultimately have "split s c ! 0 \<in> set (split s c)" and "split s c ! 1 \<in> set (split s c)"
    by blast+
  then have "c \<notin> set (split s c ! 0)" and "c \<notin> set (split s c ! 1)"
    by (simp_all add: split_parts_no_sep)
  then show ?thesis
    by (simp add: split_append_sep split_no_sep)
qed

subsection \<open>One run of \<^verbatim>\<open>get_meme\<close> and of \<^verbatim>\<open>thinking\<close>\<close>

lemma or_empty_Some: "or_empty (Some s) = s"
  by simp

lemma meme_params_text0: "map_of (meme_params cfg i t0 t1) ''text0'' = Some (Some (or_empty t0))"
  by (simp add: meme_params_def)

lemma meme_params_text1: "map_of (meme_params cfg i t0 t1) ''text1'' = Some (Some (or_empty t1))"
  by (simp add: meme_params_def)

lemma meme_params_imageID: "map_of (meme_params cfg i t0 t1) ''imageID'' = Some (Some i)"
  by (simp add: meme_params_def)

lemma response_json_value: "json_body rsp = Inr v \<Longrightarrow> response_json rsp = Inr v"
  by (simp add: response_json_def)

lemma response_json_failure:
  "json_body rsp = Inl (msg, pos) \<Longrightarrow>
   response_json rsp = Inl (JSONDecodeError msg (resp_text rsp) pos)"
  by (simp add: response_json_def)

lemma get_meme_sent:
  "snd (get_meme cfg nw image_id text0 text1 sent) =
     sent @ [\<lparr>meth = GET, url = MG_URL, params = meme_params cfg image_id text0 text1\<rparr>]"
  by (simp add: get_meme_def requests_get_def Let_def split: sum.splits)

lemma get_meme_answer:
  "fst (get_meme cfg nw image_id text0 text1 sent) =
     (case nw \<lparr>meth = GET, url = MG_URL, params = meme_params cfg image_id text0 text1\<rparr> of
        Inl e \<Rightarrow> Inl e
      | Inr rsp \<Rightarrow>
          if ok rsp then
            (case response_json rsp of
               Inl e \<Rightarrow> Inl e
             | Inr r_json \<Rightarrow>
                 (case instance_image_url r_json of
                    Inl e \<Rightarrow> Inl (PyException r_json e)
                  | Inr img_url \<Rightarrow> Inr img_url))
          else Inr JNull)"
  by (auto simp add: get_meme_def requests_get_def Let_def split: sum.splits)

lemma thinking_absent:
  "form_get form ''text'' = None \<Longrightarrow>
   thinking cfg nw pid form sent =
     (Inl (AttributeError ''NoneType object has no attribute split''), sent)"
  by (simp add: thinking_def)

lemma thinking_present:
  "form_get form ''text'' = Some text \<Longrightarrow>
   thinking cfg nw pid form sent =
     (let r = get_meme cfg nw (case pid of None \<Rightarrow> GAVIN_ID | Some i \<Rightarrow> i)
          (Some (split text CHR '':'' ! 0))
          (if length (split text CHR '':'') > 1 then Some (split text CHR '':'' ! 1) else None) sent
      in (case fst r of
            Inl e \<Rightarrow> Inl e
          | Inr img \<Rightarrow>
              if truthy img then
                Inr (Some (jsonify
                  [(''response_type'', JStr ''in_channel''),
                   (''attachments'', JArr [JObj [(''text'', img), (''image_url'', img)]])]))
              else Inr None,
          snd r))"
  by (cases "length (split text CHR '':'') > 1")
     (simp_all add: thinking_def Let_def split: prod.splits sum.splits)

lemma thinking_sent:
  "form_get form ''text'' = Some text \<Longrightarrow>
   snd (thinking cfg nw pid form sent) =
     sent @ [\<lparr>meth = GET, url = MG_URL,
        params = meme_params cfg (case pid of None \<Rightarrow> GAVIN_ID | Some i \<Rightarrow> i)
          (Some (split text CHR '':'' ! 0))
          (if length (split text CHR '':'') > 1 then Some (split text CHR '':'' ! 1) else None)\<rparr>]"
  by (simp only: thinking_present Let_def snd_conv get_meme_sent)

lemma thinking_result:
  "form_get form ''text'' = Some text \<Longrightarrow>
   snd (thinking cfg nw pid form sent) = sent @ [rq] \<Longrightarrow>
   fst (thinking cfg nw pid form sent) =
     (case nw rq of
        Inl e \<Rightarrow> Inl e
      | Inr rsp \<Rightarrow>
          if ok rsp then
            (case response_json rsp of
               Inl e \<Rightarrow> Inl e
             | Inr r_json \<Rightarrow>
                 (case instance_image_url r_json of
                    Inl e \<Rightarrow> Inl (PyException r_json e)
                  | Inr img \<Rightarrow>
                      if truthy img then
                        Inr (Some (jsonify
                          [(''response_type'', JStr ''in_channel''),
                           (''attachments'', JArr [JObj [(''text'', img), (''image_url'', img)]])]))
                      else Inr None))
          else Inr None)"
proof -
  assume t: "form_get form ''text'' = Some text"
    and s: "snd (thinking cfg nw pid form sent) = sent @ [rq]"
  let ?i = "case pid of None \<Rightarrow> GAVIN_ID | Some i \<Rightarrow> i"
  let ?t0 = "Some (split text CHR '':'' ! 0)"
  let ?t1 = "if length (split text CHR '':'') > 1 then Some (split text CHR '':'' ! 1) else None"
  from s have rq: "rq = \<lparr>meth = GET, url = MG_URL, params = meme_params cfg ?i ?t0 ?t1\<rparr>"
    unfolding thinking_sent[OF t] by simp
  show ?thesis
    unfolding thinking_present[OF t] Let_def fst_conv get_meme_answer rq
    by (simp split: sum.splits)
qed

lemma sent_present:
  "snd (thinking cfg nw pid form sent) = sent @ [rq] \<Longrightarrow> \<exists>text. form_get form ''text'' = Some text"
  by (cases "form_get form ''text''") (simp_all add: thinking_absent)

lemma instance_image_url_Inr_iff:
  "instance_image_url j = Inr v \<longleftrightarrow>
     (\<exists>kvs res. j = JObj kvs \<and> map_of kvs ''result'' = Some (JObj res)
        \<and> map_of res ''instanceImageUrl'' = Some v)"
proof (cases j)
  case (JObj kvs)
  show ?thesis
  proof (cases "map_of kvs ''result''")
    case None
    with JObj show ?thesis by (simp add: instance_image_url_def)
  next
    case (Some w)
    with JObj show ?thesis
      by (cases w) (simp_all add: instance_image_url_def split: option.splits)
  qed
qed (simp_all add: instance_image_url_def)

lemma instance_image_url_path:
  "map_of kvs ''result'' = Some (JObj res) \<Longrightarrow> map_of res ''instanceImageUrl'' = Some v \<Longrightarrow>
   instance_image_url (JObj kvs) = Inr v"
  by (simp add: instance_image_url_Inr_iff)

subsection \<open>The claims\<close>

text \<open>
  C1. When the invocation has sent its request \<open>rq\<close>, the external API answers it with
  a response of success status, and the JSON body of the response is an object whose
  \<^verbatim>\<open>result\<close> is an object whose \<^verbatim>\<open>instanceImageUrl\<close> is the URL string \<open>u\<close> (a URL
  is not the empty string), the handler returns the chat payload
  \<^verbatim>\<open>{"response_type": "in_channel", "attachments": [{"text": u, "image_url": u}]}\<close>:
  both fields of the one attachment are \<open>u\<close>.
\<close>

theorem thinking_success_payload:
  assumes "snd (thinking cfg nw pid form sent) = sent @ [rq]"
    and "nw rq = Inr rsp"
    and "ok rsp"
    and "json_body rsp = Inr (JObj kvs)"
    and "map_of kvs ''result'' = Some (JObj res)"
    and "map_of res ''instanceImageUrl'' = Some (JStr u)"
    and "u \<noteq> []"
  shows "fst (thinking cfg nw pid form sent) =
     Inr (Some (JObj
       [(''response_type'', JStr ''in_channel''),
        (''attachments'', JArr [JObj [(''text'', JStr u), (''image_url'', JStr u)]])]))"
proof -
  from assms(1) obtain tx where t: "form_get form ''text'' = Some tx"
    using sent_present by blast
  from assms(5,6) have "instance_image_url (JObj kvs) = Inr (JStr u)"
    by (rule instance_image_url_path)
  with assms(2,3,7) response_json_value[OF assms(4)] show ?thesis
    unfolding thinking_result[OF t assms(1)] by (simp add: jsonify_def)
qed

theorem thinking_success_payload_witness:
  "snd (thinking \<lparr>USERNAME = Some ''gavin'', PASSWORD = Some ''secret''\<rparr>
        (stub_net (Inr \<lparr>ok = True, resp_text = ''{\"result\": {\"instanceImageUrl\": \"http://x/y.jpg\"}}'',
            json_body = Inr (JObj [(''result'',
            JObj [(''instanceImageUrl'', JStr ''http://x/y.jpg'')])])\<rparr>))
        (Some ''16191858'') [(''text'', ''Hello:World'')] []) =
     [\<lparr>meth = GET, url = ''http://version1.api.memegenerator.net/Instance_Create'',
       params = [(''username'', Some ''gavin''), (''password'', Some ''secret''),
         (''languageCode'', Some ''en''), (''text0'', Some ''Hello''), (''text1'', Some ''World''),
         (''imageID'', Some ''16191858''), (''generatorID'', Some ''6693723'')]\<rparr>]
   \<and> fst (thinking \<lparr>USERNAME = Some ''gavin'', PASSWORD = Some ''secret''\<rparr>
        (stub_net (Inr \<lparr>ok = True, resp_text = ''{\"result\": {\"instanceImageUrl\": \"http://x/y.jpg\"}}'',
            json_body = Inr (JObj [(''result'',
            JObj [(''instanceImageUrl'', JStr ''http://x/y.jpg'')])])\<rparr>))
        (Some ''16191858'') [(''text'', ''Hello:World'')] []) =
     Inr (Some (JObj
       [(''response_type'', JStr ''in_channel''),
        (''attachments'', JArr [JObj [(''text'', JStr ''http://x/y.jpg''),
            (''image_url'', JStr ''http://x/y.jpg'')]])]))"
proof -
  let ?cfg = "\<lparr>USERNAME = Some ''gavin'', PASSWORD = Some ''secret''\<rparr>"
  let ?rsp = "\<lparr>ok = True, resp_text = ''{\"result\": {\"instanceImageUrl\": \"http://x/y.jpg\"}}'',
            json_body = Inr (JObj [(''result'',
            JObj [(''instanceImageUrl'', JStr ''http://x/y.jpg'')])])\<rparr>"
  let ?rq = "\<lparr>meth = GET, url = ''http://version1.api.memegenerator.net/Instance_Create'',
       params = [(''username'', Some ''gavin''), (''password'', Some ''secret''),
         (''languageCode'', Some ''en''), (''text0'', Some ''Hello''), (''text1'', Some ''World''),
         (''imageID'', Some ''16191858''), (''generatorID'', Some ''6693723'')]\<rparr>"
  have s: "snd (thinking ?cfg (stub_net (Inr ?rsp)) (Some ''16191858'') [(''text'', ''Hello:World'')] [])
      = [] @ [?rq]"
    by (simp add: thinking_def form_get_def get_meme_def requests_get_def stub_net_def
        meme_params_def MG_URL_def Let_def instance_image_url_def response_json_def)
  have n: "stub_net (Inr ?rsp) ?rq = Inr ?rsp"
    by (simp add: stub_net_def)
  have k: "map_of [(''result'', JObj [(''instanceImageUrl'', JStr ''http://x/y.jpg'')])] ''result''
      = Some (JObj [(''instanceImageUrl'', JStr ''http://x/y.jpg'')])"
    by simp
  have r: "map_of [(''instanceImageUrl'', JStr ''http://x/y.jpg'')] ''instanceImageUrl''
      = Some (JStr ''http://x/y.jpg'')"
    by simp
  from thinking_success_payload[OF s n _ _ k r] s show ?thesis
    by simp
qed

text \<open>
  C2, as stated, fails. The claim has \<^verbatim>\<open>text1\<close> be everything after the first colon,
  but \<^verbatim>\<open>split(':')\<close> has no limit and cuts at every colon: for the text \<^verbatim>\<open>a:b:c\<close>
  the request carries \<^verbatim>\<open>text1 = b\<close>, not \<^verbatim>\<open>b:c\<close>.
\<close>

theorem split_first_colon_counterexample:
  "snd (thinking \<lparr>USERNAME = Some ''gavin'', PASSWORD = Some ''secret''\<rparr>
        (stub_net (Inl (LibraryError ''ConnectionError''))) None [(''text'', ''a:b:c'')] []) =
     [\<lparr>meth = GET, url = ''http://version1.api.memegenerator.net/Instance_Create'',
       params = [(''username'', Some ''gavin''), (''password'', Some ''secret''),
         (''languageCode'', Some ''en''), (''text0'', Some ''a''), (''text1'', Some ''b''),
         (''imageID'', Some ''16191858''), (''generatorID'', Some ''6693723'')]\<rparr>]"
  by (simp add: thinking_def form_get_def get_meme_def requests_get_def stub_net_def
      meme_params_def MG_URL_def GAVIN_ID_def Let_def)

text \<open>
  C2, amended. For a text \<open>a @ CHR '':'' # r\<close> in which \<open>a\<close> has no colon (so \<open>a\<close> is
  what stands before the first colon and \<open>r\<close> is all that follows it), the one request
  sent carries \<^verbatim>\<open>text0 = a\<close> and, as \<^verbatim>\<open>text1\<close>, the part of \<open>r\<close> up to its first colon;
  that is all of \<open>r\<close> when the text has no second colon. Both are taken verbatim:
  nothing is trimmed.
\<close>

theorem thinking_splits_at_colons:
  assumes "form_get form ''text'' = Some (a @ CHR '':'' # r)"
    and "CHR '':'' \<notin> set a"
  shows "\<exists>rq. snd (thinking cfg nw pid form sent) = sent @ [rq]
      \<and> map_of (params rq) ''text0'' = Some (Some a)
      \<and> map_of (params rq) ''text1'' = Some (Some (takeWhile (\<lambda>x. x \<noteq> CHR '':'') r))
      \<and> (CHR '':'' \<notin> set r \<longrightarrow> map_of (params rq) ''text1'' = Some (Some r))"
proof -
  note two = split_two[OF assms(2), of r]
  have "CHR '':'' \<notin> set r \<Longrightarrow> takeWhile (\<lambda>x. x \<noteq> CHR '':'') r = r"
    by auto
  with two show ?thesis
    unfolding thinking_sent[OF assms(1)]
    by (simp add: meme_params_text0 meme_params_text1 or_empty_Some del: or_empty.simps(2))
qed

theorem thinking_splits_at_colons_witness:
  "\<exists>rq. snd (thinking \<lparr>USERNAME = Some ''gavin'', PASSWORD = None\<rparr>
        (stub_net (Inl (LibraryError ''ConnectionError''))) None
        [(''text'', ''top text: bottom'')] []) = [] @ [rq]
      \<and> map_of (params rq) ''text0'' = Some (Some ''top text'')
      \<and> map_of (params rq) ''text1'' = Some (Some '' bottom'')"
proof -
  have h: "form_get [(''text'', ''top text: bottom'')] ''text'' = Some (''top text'' @ CHR '':'' # '' bottom'')"
    by (simp add: form_get_def)
  have n: "CHR '':'' \<notin> set ''top text''"
    by simp
  from thinking_splits_at_colons[OF h n, where cfg = "\<lparr>USERNAME = Some ''gavin'', PASSWORD = None\<rparr>"
      and nw = "stub_net (Inl (LibraryError ''ConnectionError''))" and pid = None and sent = "[]"]
  show ?thesis
    by simp
qed

text \<open>
  C3. When the external API answers the request of the invocation with a response
  whose status is not a success (\<^verbatim>\<open>response.ok\<close> is false), the handler raises nothing
  and returns \<^verbatim>\<open>None\<close>: no body.
\<close>

theorem thinking_not_ok_returns_none:
  assumes "snd (thinking cfg nw pid form sent) = sent @ [rq]"
    and "nw rq = Inr rsp"
    and "\<not> ok rsp"
  shows "fst (thinking cfg nw pid form sent) = Inr None"
proof -
  from assms(1) obtain tx where t: "form_get form ''text'' = Some tx"
    using sent_present by blast
  from assms(2,3) show ?thesis
    unfolding thinking_result[OF t assms(1)] by simp
qed

theorem thinking_not_ok_returns_none_witness:
  "snd (thinking \<lparr>USERNAME = Some ''gavin'', PASSWORD = Some ''secret''\<rparr>
        (stub_net (Inr \<lparr>ok = False, resp_text = ''Service Unavailable'',
           json_body = Inl (''Expecting value'', 0)\<rparr>))
        None [(''text'', ''Hello:World'')] []) =
     [\<lparr>meth = GET, url = ''http://version1.api.memegenerator.net/Instance_Create'',
       params = [(''username'', Some ''gavin''), (''password'', Some ''secret''),
         (''languageCode'', Some ''en''), (''text0'', Some ''Hello''), (''text1'', Some ''World''),
         (''imageID'', Some ''16191858''), (''generatorID'', Some ''6693723'')]\<rparr>]
   \<and> fst (thinking \<lparr>USERNAME = Some ''gavin'', PASSWORD = Some ''secret''\<rparr>
        (stub_net (Inr \<lparr>ok = False, resp_text = ''Service Unavailable'',
           json_body = Inl (''Expecting value'', 0)\<rparr>))
        None [(''text'', ''Hello:World'')] []) = Inr None"
proof -
  let ?cfg = "\<lparr>USERNAME = Some ''gavin'', PASSWORD = Some ''secret''\<rparr>"
  let ?rsp = "\<lparr>ok = False, resp_text = ''Service Unavailable'',
           json_body = Inl (''Expecting value'', 0)\<rparr>"
  let ?rq = "\<lparr>meth = GET, url = ''http://version1.api.memegenerator.net/Instance_Create'',
       params = [(''username'', Some ''gavin''), (''password'', Some ''secret''),
         (''languageCode'', Some ''en''), (''text0'', Some ''Hello''), (''text1'', Some ''World''),
         (''imageID'', Some ''16191858''), (''generatorID'', Some ''6693723'')]\<rparr>"
  have s: "snd (thinking ?cfg (stub_net (Inr ?rsp)) None [(''text'', ''Hello:World'')] [])
      = [] @ [?rq]"
    by (simp add: thinking_def form_get_def get_meme_def requests_get_def stub_net_def
        meme_params_def MG_URL_def GAVIN_ID_def Let_def)
  have n: "stub_net (Inr ?rsp) ?rq = Inr ?rsp"
    by (simp add: stub_net_def)
  from thinking_not_ok_returns_none[OF s n] s show ?thesis
    by simp
qed

text \<open>
  C4. Let the response to the request of the invocation have a success status.
  \<^item> If its body is not valid JSON, \<^verbatim>\<open>response.json()\<close> raises before the \<^verbatim>\<open>try\<close> and
    the handler raises that \<^verbatim>\<open>JSONDecodeError\<close>, whose document is the text of the
    response body.
  \<^item> If its body decodes to a value \<open>j\<close> that lacks the path
    \<^verbatim>\<open>result.instanceImageUrl\<close>, the handler raises \<^verbatim>\<open>Exception(j)\<close>, whose argument is
    the decoded body, chained from the error \<open>e\<close> that the lookup
    \<^verbatim>\<open>j['result']['instanceImageUrl']\<close> raised.
  In both cases the result of the handler is the exception: it is not recovered, and
  neither a chat payload nor \<^verbatim>\<open>None\<close> is returned.
\<close>

theorem thinking_unexpected_shape:
  assumes "snd (thinking cfg nw pid form sent) = sent @ [rq]"
    and "nw rq = Inr rsp"
    and "ok rsp"
  shows "(\<forall>msg pos. json_body rsp = Inl (msg, pos) \<longrightarrow>
            fst (thinking cfg nw pid form sent) = Inl (JSONDecodeError msg (resp_text rsp) pos))
    \<and> (\<forall>j. json_body rsp = Inr j
          \<and> \<not> (\<exists>kvs res v. j = JObj kvs \<and> map_of kvs ''result'' = Some (JObj res)
                \<and> map_of res ''instanceImageUrl'' = Some v)
        \<longrightarrow> (\<exists>e. instance_image_url j = Inl e
              \<and> fst (thinking cfg nw pid form sent) = Inl (PyException j e)))"
proof -
  from assms(1) obtain tx where t: "form_get form ''text'' = Some tx"
    using sent_present by blast
  have decode: "fst (thinking cfg nw pid form sent) = Inl (JSONDecodeError msg (resp_text rsp) pos)"
    if "json_body rsp = Inl (msg, pos)" for msg pos
    using response_json_failure[OF that] assms(2,3)
    unfolding thinking_result[OF t assms(1)] by simp
  have shape: "\<exists>e. instance_image_url j = Inl e
      \<and> fst (thinking cfg nw pid form sent) = Inl (PyException j e)"
    if b: "json_body rsp = Inr j"
      and l: "\<not> (\<exists>kvs res v. j = JObj kvs \<and> map_of kvs ''result'' = Some (JObj res)
                \<and> map_of res ''instanceImageUrl'' = Some v)" for j
  proof -
    from l have "\<And>v. instance_image_url j \<noteq> Inr v"
      unfolding instance_image_url_Inr_iff by blast
    then obtain e where e: "instance_image_url j = Inl e"
      by (cases "instance_image_url j") auto
    with response_json_value[OF b] assms(2,3)
    have "fst (thinking cfg nw pid form sent) = Inl (PyException j e)"
      unfolding thinking_result[OF t assms(1)] by simp
    with e show ?thesis
      by blast
  qed
  from decode shape show ?thesis
    by blast
qed

theorem thinking_unexpected_shape_witness:
  "fst (thinking \<lparr>USERNAME = Some ''gavin'', PASSWORD = Some ''secret''\<rparr>
      (stub_net (Inr \<lparr>ok = True, resp_text = ''<html>down</html>'',
          json_body = Inl (''Expecting value'', 0)\<rparr>))
      None [(''text'', ''a:b'')] []) =
        Inl (JSONDecodeError ''Expecting value'' ''<html>down</html>'' 0)
   \<and> fst (thinking \<lparr>USERNAME = Some ''gavin'', PASSWORD = Some ''secret''\<rparr>
      (stub_net (Inr \<lparr>ok = True,
          resp_text = ''{\"success\": false, \"errorMessage\": \"Invalid login\"}'',
          json_body = Inr (JObj [(''success'', JBool False),
            (''errorMessage'', JStr ''Invalid login'')])\<rparr>))
      None [(''text'', ''a:b'')] []) =
        Inl (PyException (JObj [(''success'', JBool False),
          (''errorMessage'', JStr ''Invalid login'')]) (KeyError ''result''))"
proof -
  let ?cfg = "\<lparr>USERNAME = Some ''gavin'', PASSWORD = Some ''secret''\<rparr>"
  let ?rq = "\<lparr>meth = GET, url = ''http://version1.api.memegenerator.net/Instance_Create'',
       params = [(''username'', Some ''gavin''), (''password'', Some ''secret''),
         (''languageCode'', Some ''en''), (''text0'', Some ''a''), (''text1'', Some ''b''),
         (''imageID'', Some ''16191858''), (''generatorID'', Some ''6693723'')]\<rparr>"
  let ?bad = "\<lparr>ok = True, resp_text = ''<html>down</html>'',
          json_body = Inl (''Expecting value'', 0)\<rparr>"
  let ?j = "JObj [(''success'', JBool False), (''errorMessage'', JStr ''Invalid login'')]"
  let ?odd = "\<lparr>ok = True,
          resp_text = ''{\"success\": false, \"errorMessage\": \"Invalid login\"}'',
          json_body = Inr ?j\<rparr>"
  have s1: "snd (thinking ?cfg (stub_net (Inr ?bad)) None [(''text'', ''a:b'')] []) = [] @ [?rq]"
    by (simp add: thinking_def form_get_def get_meme_def requests_get_def stub_net_def
        meme_params_def MG_URL_def GAVIN_ID_def Let_def response_json_def)
  have n1: "stub_net (Inr ?bad) ?rq = Inr ?bad"
    by (simp add: stub_net_def)
  have s2: "snd (thinking ?cfg (stub_net (Inr ?odd)) None [(''text'', ''a:b'')] []) = [] @ [?rq]"
    by (simp add: thinking_def form_get_def get_meme_def requests_get_def stub_net_def
        meme_params_def MG_URL_def GAVIN_ID_def Let_def instance_image_url_def response_json_def)
  have n2: "stub_net (Inr ?odd) ?rq = Inr ?odd"
    by (simp add: stub_net_def)
  from thinking_unexpected_shape[OF s1 n1] have a: "fst (thinking ?cfg (stub_net (Inr ?bad)) None
      [(''text'', ''a:b'')] []) = Inl (JSONDecodeError ''Expecting value'' ''<html>down</html>'' 0)"
    by simp
  from thinking_unexpected_shape[OF s2 n2] have b: "fst (thinking ?cfg (stub_net (Inr ?odd)) None
      [(''text'', ''a:b'')] []) = Inl (PyException ?j (KeyError ''result''))"
    by (simp add: instance_image_url_def)
  from a b show ?thesis
    by (rule conjI)
qed

text \<open>
  C5. For a text with two or more colons, the one request sent carries the first part
  of the split as \<^verbatim>\<open>text0\<close> and the second as \<^verbatim>\<open>text1\<close>, and the later parts are
  ignored: the whole run (the request sent and the result) is the run on the text made
  of the first two parts alone.
\<close>

theorem thinking_ignores_later_parts:
  assumes "form_get form ''text'' = Some tx"
    and "2 \<le> count_list tx CHR '':''"
  shows "(\<exists>rq. snd (thinking cfg nw pid form sent) = sent @ [rq]
        \<and> map_of (params rq) ''text0'' = Some (Some (split tx CHR '':'' ! 0))
        \<and> map_of (params rq) ''text1'' = Some (Some (split tx CHR '':'' ! 1)))
      \<and> thinking cfg nw pid form sent =
          thinking cfg nw pid [(''text'', split tx CHR '':'' ! 0 @ CHR '':'' # split tx CHR '':'' ! 1)] sent"
proof -
  from assms(2) have len: "1 < length (split tx CHR '':'')"
    by (simp add: length_split)
  have short: "form_get [(''text'', split tx CHR '':'' ! 0 @ CHR '':'' # split tx CHR '':'' ! 1)] ''text''
      = Some (split tx CHR '':'' ! 0 @ CHR '':'' # split tx CHR '':'' ! 1)"
    by (simp add: form_get_def)
  have run: "thinking cfg nw pid form sent =
      thinking cfg nw pid [(''text'', split tx CHR '':'' ! 0 @ CHR '':'' # split tx CHR '':'' ! 1)] sent"
    unfolding thinking_present[OF assms(1)] thinking_present[OF short] split_first_two[OF len]
    using len by simp
  from len have req: "\<exists>rq. snd (thinking cfg nw pid form sent) = sent @ [rq]
        \<and> map_of (params rq) ''text0'' = Some (Some (split tx CHR '':'' ! 0))
        \<and> map_of (params rq) ''text1'' = Some (Some (split tx CHR '':'' ! 1))"
    unfolding thinking_sent[OF assms(1)]
    by (simp add: meme_params_text0 meme_params_text1 or_empty_Some del: or_empty.simps(2))
  from req run show ?thesis
    by (rule conjI)
qed

theorem thinking_ignores_later_parts_witness:
  "(\<exists>rq. snd (thinking \<lparr>USERNAME = Some ''gavin'', PASSWORD = Some ''secret''\<rparr>
          (stub_net (Inl (LibraryError ''ConnectionError''))) None
          [(''text'', ''a:b:c:d'')] []) = [] @ [rq]
        \<and> map_of (params rq) ''text0'' = Some (Some ''a'')
        \<and> map_of (params rq) ''text1'' = Some (Some ''b''))
   \<and> thinking \<lparr>USERNAME = Some ''gavin'', PASSWORD = Some ''secret''\<rparr>
          (stub_net (Inl (LibraryError ''ConnectionError''))) None
          [(''text'', ''a:b:c:d'')] [] =
      thinking \<lparr>USERNAME = Some ''gavin'', PASSWORD = Some ''secret''\<rparr>
          (stub_net (Inl (LibraryError ''ConnectionError''))) None
          [(''text'', ''a:b'')] []"
proof -
  have h: "form_get [(''text'', ''a:b:c:d'')] ''text'' = Some ''a:b:c:d''"
    by (simp add: form_get_def)
  have n: "2 \<le> count_list ''a:b:c:d'' CHR '':''"
    by simp
  have p: "split ''a:b:c:d'' CHR '':'' = [''a'', ''b'', ''c'', ''d'']"
    by simp
  note w = thinking_ignores_later_parts[OF h n,
      where cfg = "\<lparr>USERNAME = Some ''gavin'', PASSWORD = Some ''secret''\<rparr>"
      and nw = "stub_net (Inl (LibraryError ''ConnectionError''))" and pid = None and sent = "[]",
      unfolded p]
  from w[THEN conjunct1] have a: "\<exists>rq. snd (thinking \<lparr>USERNAME = Some ''gavin'', PASSWORD = Some ''secret''\<rparr>
          (stub_net (Inl (LibraryError ''ConnectionError''))) None
          [(''text'', ''a:b:c:d'')] []) = [] @ [rq]
        \<and> map_of (params rq) ''text0'' = Some (Some ''a'')
        \<and> map_of (params rq) ''text1'' = Some (Some ''b'')"
    by simp
  from w[THEN conjunct2] have b: "thinking \<lparr>USERNAME = Some ''gavin'', PASSWORD = Some ''secret''\<rparr>
          (stub_net (Inl (LibraryError ''ConnectionError''))) None
          [(''text'', ''a:b:c:d'')] [] =
      thinking \<lparr>USERNAME = Some ''gavin'', PASSWORD = Some ''secret''\<rparr>
          (stub_net (Inl (LibraryError ''ConnectionError''))) None
          [(''text'', ''a:b'')] []"
    by simp
  from a b show ?thesis
    by (rule conjI)
qed

text \<open>
  C6. For a text without a colon, the one request sent carries the whole text as
  \<^verbatim>\<open>text0\<close>, verbatim, and the empty string as \<^verbatim>\<open>text1\<close>.
\<close>

theorem thinking_no_colon:
  assumes "form_get form ''text'' = Some tx"
    and "CHR '':'' \<notin> set tx"
  shows "\<exists>rq. snd (thinking cfg nw pid form sent) = sent @ [rq]
      \<and> map_of (params rq) ''text0'' = Some (Some tx)
      \<and> map_of (params rq) ''text1'' = Some (Some [])"
  unfolding thinking_sent[OF assms(1)]
  by (simp add: split_no_sep[OF assms(2)] meme_params_text0 meme_params_text1 or_empty_Some
      del: or_empty.simps(2))

theorem thinking_no_colon_witness:
  "\<exists>rq. snd (thinking \<lparr>USERNAME = Some ''gavin'', PASSWORD = None\<rparr>
        (stub_net (Inl (LibraryError ''ConnectionError''))) (Some ''42'')
        [(''token'', ''x''), (''text'', '' one does not simply '')] []) = [] @ [rq]
      \<and> map_of (params rq) ''text0'' = Some (Some '' one does not simply '')
      \<and> map_of (params rq) ''text1'' = Some (Some [])"
proof -
  have h: "form_get [(''token'', ''x''), (''text'', '' one does not simply '')] ''text''
      = Some '' one does not simply ''"
    by (simp add: form_get_def)
  have n: "CHR '':'' \<notin> set '' one does not simply ''"
    by simp
  from thinking_no_colon[OF h n] show ?thesis .
qed

text \<open>
  C7, as stated, fails: not every invocation sends a request. When the form has no
  field \<^verbatim>\<open>text\<close>, the handler raises before it calls \<^verbatim>\<open>get_meme\<close>, and nothing is sent.
\<close>

theorem every_invocation_one_request_counterexample:
  "thinking \<lparr>USERNAME = Some ''gavin'', PASSWORD = Some ''secret''\<rparr>
      (stub_net (Inr \<lparr>ok = True, resp_text = ''{\"result\": {\"instanceImageUrl\": \"http://x/y.jpg\"}}'',
            json_body = Inr (JObj [(''result'',
            JObj [(''instanceImageUrl'', JStr ''http://x/y.jpg'')])])\<rparr>))
      None [(''user_name'', ''gavin'')] [] =
    (Inl (AttributeError ''NoneType object has no attribute split''), [])"
  by (simp add: thinking_def form_get_def)

text \<open>
  C7, amended. Every invocation whose form has the field \<^verbatim>\<open>text\<close>, in a process whose
  credentials \<^verbatim>\<open>MG_USERNAME\<close> and \<^verbatim>\<open>MG_PASSWORD\<close> are both set, sends exactly one
  request: a GET to \<^verbatim>\<open>http://version1.api.memegenerator.net/Instance_Create\<close> whose
  parameters are exactly \<^verbatim>\<open>username\<close>, \<^verbatim>\<open>password\<close>, \<^verbatim>\<open>languageCode\<close>, \<^verbatim>\<open>text0\<close>,
  \<^verbatim>\<open>text1\<close>, \<^verbatim>\<open>imageID\<close> and \<^verbatim>\<open>generatorID\<close>, in this order, with the credentials of
  the process, \<^verbatim>\<open>languageCode = en\<close> and \<^verbatim>\<open>generatorID = 6693723\<close>. Every one of the
  seven has a string as its value and none is \<^verbatim>\<open>None\<close>, so each is a parameter of the
  query that goes out.
\<close>

theorem thinking_one_request:
  assumes "''text'' \<in> fst ` set form"
    and "USERNAME cfg = Some un"
    and "PASSWORD cfg = Some pw"
  shows "\<exists>rq t0 t1 i. snd (thinking cfg nw pid form sent) = sent @ [rq]
      \<and> meth rq = GET
      \<and> url rq = ''http://version1.api.memegenerator.net/Instance_Create''
      \<and> params rq =
          [(''username'', Some un), (''password'', Some pw), (''languageCode'', Some ''en''),
           (''text0'', Some t0), (''text1'', Some t1), (''imageID'', Some i),
           (''generatorID'', Some ''6693723'')]"
proof -
  from assms(1) obtain tx where t: "form_get form ''text'' = Some tx"
    by (cases "form_get form ''text''") (auto simp add: form_get_def map_of_eq_None_iff)
  from assms(2,3) show ?thesis
    unfolding thinking_sent[OF t] by (simp add: meme_params_def MG_URL_def)
qed

theorem thinking_one_request_witness:
  "(\<exists>rq t0 t1 i. snd (thinking \<lparr>USERNAME = Some ''gavin'', PASSWORD = Some ''secret''\<rparr>
        (stub_net (Inl (LibraryError ''ConnectionError''))) (Some ''42'')
        [(''text'', ''a:b'')] []) = [] @ [rq]
      \<and> meth rq = GET
      \<and> url rq = ''http://version1.api.memegenerator.net/Instance_Create''
      \<and> params rq =
          [(''username'', Some ''gavin''), (''password'', Some ''secret''),
           (''languageCode'', Some ''en''), (''text0'', Some t0), (''text1'', Some t1),
           (''imageID'', Some i), (''generatorID'', Some ''6693723'')])
   \<and> snd (thinking \<lparr>USERNAME = Some ''gavin'', PASSWORD = Some ''secret''\<rparr>
        (stub_net (Inl (LibraryError ''ConnectionError''))) (Some ''42'')
        [(''text'', ''a:b'')] []) =
     [\<lparr>meth = GET, url = ''http://version1.api.memegenerator.net/Instance_Create'',
       params = [(''username'', Some ''gavin''), (''password'', Some ''secret''),
         (''languageCode'', Some ''en''), (''text0'', Some ''a''), (''text1'', Some ''b''),
         (''imageID'', Some ''42''), (''generatorID'', Some ''6693723'')]\<rparr>]"
proof -
  let ?cfg = "\<lparr>USERNAME = Some ''gavin'', PASSWORD = Some ''secret''\<rparr>"
  let ?nw = "stub_net (Inl (LibraryError ''ConnectionError''))"
  have h: "''text'' \<in> fst ` set [(''text'', ''a:b'')]"
    by simp
  have u: "USERNAME ?cfg = Some ''gavin''" and w: "PASSWORD ?cfg = Some ''secret''"
    by simp_all
  have e: "snd (thinking ?cfg ?nw (Some ''42'') [(''text'', ''a:b'')] []) =
     [\<lparr>meth = GET, url = ''http://version1.api.memegenerator.net/Instance_Create'',
       params = [(''username'', Some ''gavin''), (''password'', Some ''secret''),
         (''languageCode'', Some ''en''), (''text0'', Some ''a''), (''text1'', Some ''b''),
         (''imageID'', Some ''42''), (''generatorID'', Some ''6693723'')]\<rparr>]"
    by (simp add: thinking_def form_get_def get_meme_def requests_get_def stub_net_def
        meme_params_def MG_URL_def Let_def)
  from thinking_one_request[OF h u w, where nw = ?nw and pid = "Some ''42''" and sent = "[]"] e
  show ?thesis
    by (rule conjI)
qed

text \<open>
  C8. When the route passes no image identifier (a POST to the bare root path), the
  request that the invocation sends carries \<^verbatim>\<open>imageID = 16191858\<close>.
\<close>

theorem thinking_default_image:
  assumes "snd (thinking cfg nw None form sent) = sent @ [rq]"
  shows "map_of (params rq) ''imageID'' = Some (Some ''16191858'')"
proof -
  from assms obtain tx where t: "form_get form ''text'' = Some tx"
    using sent_present by blast
  from assms show ?thesis
    unfolding thinking_sent[OF t] by (auto simp add: meme_params_imageID GAVIN_ID_def)
qed

theorem thinking_default_image_witness:
  "snd (thinking \<lparr>USERNAME = None, PASSWORD = None\<rparr>
        (stub_net (Inl (LibraryError ''ConnectionError''))) None [(''text'', ''a:b'')] []) =
     [\<lparr>meth = GET, url = ''http://version1.api.memegenerator.net/Instance_Create'',
       params = [(''username'', None), (''password'', None),
         (''languageCode'', Some ''en''), (''text0'', Some ''a''), (''text1'', Some ''b''),
         (''imageID'', Some ''16191858''), (''generatorID'', Some ''6693723'')]\<rparr>]
   \<and> map_of (params \<lparr>meth = GET, url = ''http://version1.api.memegenerator.net/Instance_Create'',
       params = [(''username'', None), (''password'', None),
         (''languageCode'', Some ''en''), (''text0'', Some ''a''), (''text1'', Some ''b''),
         (''imageID'', Some ''16191858''), (''generatorID'', Some ''6693723'')]\<rparr>) ''imageID''
       = Some (Some ''16191858'')"
proof -
  let ?rq = "\<lparr>meth = GET, url = ''http://version1.api.memegenerator.net/Instance_Create'',
       params = [(''username'', None), (''password'', None),
         (''languageCode'', Some ''en''), (''text0'', Some ''a''), (''text1'', Some ''b''),
         (''imageID'', Some ''16191858''), (''generatorID'', Some ''6693723'')]\<rparr>"
  have s: "snd (thinking \<lparr>USERNAME = None, PASSWORD = None\<rparr>
        (stub_net (Inl (LibraryError ''ConnectionError''))) None [(''text'', ''a:b'')] []) = [] @ [?rq]"
    by (simp add: thinking_def form_get_def get_meme_def requests_get_def stub_net_def
        meme_params_def MG_URL_def GAVIN_ID_def Let_def)
  from thinking_default_image[OF s] s show ?thesis
    by simp
qed

text \<open>
  C9. When the response has a success status and its JSON body holds the empty string
  at \<^verbatim>\<open>result.instanceImageUrl\<close>, the handler returns \<^verbatim>\<open>None\<close> and no chat payload:
  \<^verbatim>\<open>if img:\<close> tests the truth value of the URL, and the empty string is false.
\<close>

theorem thinking_empty_url_returns_none:
  assumes "snd (thinking cfg nw pid form sent) = sent @ [rq]"
    and "nw rq = Inr rsp"
    and "ok rsp"
    and "json_body rsp = Inr (JObj kvs)"
    and "map_of kvs ''result'' = Some (JObj res)"
    and "map_of res ''instanceImageUrl'' = Some (JStr [])"
  shows "fst (thinking cfg nw pid form sent) = Inr None"
proof -
  from assms(1) obtain tx where t: "form_get form ''text'' = Some tx"
    using sent_present by blast
  from assms(5,6) have "instance_image_url (JObj kvs) = Inr (JStr [])"
    by (rule instance_image_url_path)
  with assms(2,3) response_json_value[OF assms(4)] show ?thesis
    unfolding thinking_result[OF t assms(1)] by simp
qed

theorem thinking_empty_url_returns_none_witness:
  "fst (thinking \<lparr>USERNAME = Some ''gavin'', PASSWORD = Some ''secret''\<rparr>
        (stub_net (Inr \<lparr>ok = True, resp_text = ''{\"success\": true, \"result\": {\"instanceID\": 7, \"instanceImageUrl\": \"\"}}'',
           json_body = Inr (JObj [(''success'', JBool True),
           (''result'', JObj [(''instanceID'', JInt 7), (''instanceImageUrl'', JStr [])])])\<rparr>))
        (Some ''42'') [(''text'', ''Hello'')] []) = Inr None"
proof -
  let ?cfg = "\<lparr>USERNAME = Some ''gavin'', PASSWORD = Some ''secret''\<rparr>"
  let ?res = "[(''instanceID'', JInt 7), (''instanceImageUrl'', JStr [])]"
  let ?kvs = "[(''success'', JBool True), (''result'', JObj ?res)]"
  let ?rsp = "\<lparr>ok = True, resp_text = ''{\"success\": true, \"result\": {\"instanceID\": 7, \"instanceImageUrl\": \"\"}}'',
           json_body = Inr (JObj ?kvs)\<rparr>"
  let ?rq = "\<lparr>meth = GET, url = ''http://version1.api.memegenerator.net/Instance_Create'',
       params = [(''username'', Some ''gavin''), (''password'', Some ''secret''),
         (''languageCode'', Some ''en''), (''text0'', Some ''Hello''), (''text1'', Some []),
         (''imageID'', Some ''42''), (''generatorID'', Some ''6693723'')]\<rparr>"
  have s: "snd (thinking ?cfg (stub_net (Inr ?rsp)) (Some ''42'') [(''text'', ''Hello'')] [])
      = [] @ [?rq]"
    by (simp add: thinking_def form_get_def get_meme_def requests_get_def stub_net_def
        meme_params_def MG_URL_def Let_def instance_image_url_def response_json_def)
  have n: "stub_net (Inr ?rsp) ?rq = Inr ?rsp"
    by (simp add: stub_net_def)
  have k: "map_of ?kvs ''result'' = Some (JObj ?res)"
    by simp
  have r: "map_of ?res ''instanceImageUrl'' = Some (JStr [])"
    by simp
  from thinking_empty_url_returns_none[OF s n _ _ k r] show ?thesis
    by simp
qed

text \<open>
  C10. When the form has no field \<^verbatim>\<open>text\<close>, the handler raises \<^verbatim>\<open>AttributeError\<close>
  (\<^verbatim>\<open>.split\<close> on \<^verbatim>\<open>None\<close>) and the list of requests sent is what it was before: no
  outbound call is made.
\<close>

theorem thinking_without_text_fails:
  assumes "''text'' \<notin> fst ` set form"
  shows "\<exists>msg. thinking cfg nw pid form sent = (Inl (AttributeError msg), sent)"
proof -
  from assms have "form_get form ''text'' = None"
    by (simp add: form_get_def map_of_eq_None_iff)
  then show ?thesis
    by (simp add: thinking_absent)
qed

theorem thinking_without_text_fails_witness:
  "\<exists>msg. thinking \<lparr>USERNAME = Some ''gavin'', PASSWORD = Some ''secret''\<rparr>
      (stub_net (Inr \<lparr>ok = True, resp_text = ''{\"result\": {\"instanceImageUrl\": \"http://x/y.jpg\"}}'',
            json_body = Inr (JObj [(''result'',
            JObj [(''instanceImageUrl'', JStr ''http://x/y.jpg'')])])\<rparr>))
      None [(''user_name'', ''gavin'')] [] = (Inl (AttributeError msg), [])"
proof -
  have h: "''text'' \<notin> fst ` set [(''user_name'', ''gavin'')]"
    by simp
  from thinking_without_text_fails[OF h] show ?thesis .
qed

end
